theory Spec2Isabelle
  imports Complex_Main
begin

section \<open>Vehicle physics, ground sampling and camera rig of main.js\<close>

text \<open>
  The development embeds the state-evolving part of \<^verbatim>\<open>src/main.js\<close>: the vehicle
  object, the key flags, \<^verbatim>\<open>physicsStep\<close>, \<^verbatim>\<open>resetVehicle\<close>,
  \<^verbatim>\<open>getGroundHeightAt\<close>, \<^verbatim>\<open>toggleCamera\<close> and \<^verbatim>\<open>updateCamera\<close>.

  JavaScript numbers are modelled as mathematical reals, with \<^verbatim>\<open>Math.sqrt\<close>,
  \<^verbatim>\<open>Math.tan\<close>, \<^verbatim>\<open>Math.sign\<close> and \<^verbatim>\<open>Math.pow\<close> (with a positive base) as
  \<open>sqrt\<close>, \<open>tan\<close>, \<open>sgn\<close> and \<open>powr\<close>, and \<^verbatim>\<open>Math.PI\<close> as \<open>pi\<close>. The
  steering update, which uses \<open>+\<close>, \<open>-\<close> and \<open>*\<close> only, is also embedded with the
  rounding of IEEE binary64 after every operation (\<open>steerStage_d\<close>), because the bound on
  the steering angle depends on it.
\<close>

subsection \<open>The three.js value types used by the program\<close>

text \<open>
  \<^verbatim>\<open>THREE.Vector3\<close> and \<^verbatim>\<open>THREE.Quaternion\<close> are mutable objects in the
  library; the program clones before it mutates a shared vector, so values suffice.
  Each operation below is the library method of the same name (three.js r156).
\<close>

datatype vec3 = Vector3 (vx: real) (vy: real) (vz: real)

datatype quat = Quaternion (qx: real) (qy: real) (qz: real) (qw: real)

definition lerp :: "real \<Rightarrow> real \<Rightarrow> real \<Rightarrow> real" where
  \<comment> \<open>\<^verbatim>\<open>MathUtils.lerp(x, y, t) = (1 - t) * x + t * y\<close>\<close>
  "lerp a b t = (1 - t) * a + t * b"

definition vadd :: "vec3 \<Rightarrow> vec3 \<Rightarrow> vec3" where
  "vadd a b = Vector3 (vx a + vx b) (vy a + vy b) (vz a + vz b)"

definition vsub :: "vec3 \<Rightarrow> vec3 \<Rightarrow> vec3" where
  "vsub a b = Vector3 (vx a - vx b) (vy a - vy b) (vz a - vz b)"

definition multiplyScalar :: "vec3 \<Rightarrow> real \<Rightarrow> vec3" where
  "multiplyScalar a s = Vector3 (vx a * s) (vy a * s) (vz a * s)"

definition divideScalar :: "vec3 \<Rightarrow> real \<Rightarrow> vec3" where
  \<comment> \<open>\<^verbatim>\<open>divideScalar(s)\<close> is \<^verbatim>\<open>multiplyScalar(1 / s)\<close>\<close>
  "divideScalar a s = multiplyScalar a (1 / s)"

definition vlength :: "vec3 \<Rightarrow> real" where
  "vlength a = sqrt (vx a * vx a + vy a * vy a + vz a * vz a)"

definition normalize :: "vec3 \<Rightarrow> vec3" where
  \<comment> \<open>\<^verbatim>\<open>divideScalar(this.length() || 1)\<close>: a zero length is replaced by 1\<close>
  "normalize a = divideScalar a (if vlength a = 0 then 1 else vlength a)"

definition vdot :: "vec3 \<Rightarrow> vec3 \<Rightarrow> real" where
  "vdot a b = vx a * vx b + vy a * vy b + vz a * vz b"

definition addScaledVector :: "vec3 \<Rightarrow> vec3 \<Rightarrow> real \<Rightarrow> vec3" where
  "addScaledVector a b s = Vector3 (vx a + vx b * s) (vy a + vy b * s) (vz a + vz b * s)"

definition vlerp :: "vec3 \<Rightarrow> vec3 \<Rightarrow> real \<Rightarrow> vec3" where
  \<comment> \<open>\<^verbatim>\<open>Vector3.lerp(v, alpha)\<close>: \<^verbatim>\<open>this.x += (v.x - this.x) * alpha\<close>, and so on\<close>
  "vlerp a b alpha =
     Vector3 (vx a + (vx b - vx a) * alpha)
             (vy a + (vy b - vy a) * alpha)
             (vz a + (vz b - vz a) * alpha)"

definition applyQuaternion :: "vec3 \<Rightarrow> quat \<Rightarrow> vec3" where
  \<comment> \<open>r156: first \<^verbatim>\<open>quat * vector\<close> (\<open>ix, iy, iz, iw\<close>), then
      \<^verbatim>\<open>result * inverse quat\<close>, written with the conjugate\<close>
  "applyQuaternion v q =
     (let ix = qw q * vx v + qy q * vz v - qz q * vy v;
          iy = qw q * vy v + qz q * vx v - qx q * vz v;
          iz = qw q * vz v + qx q * vy v - qy q * vx v;
          iw = - qx q * vx v - qy q * vy v - qz q * vz v
      in Vector3 (ix * qw q + iw * - qx q + iy * - qz q - iz * - qy q)
                 (iy * qw q + iw * - qy q + iz * - qx q - ix * - qz q)
                 (iz * qw q + iw * - qz q + ix * - qy q - iy * - qx q))"

definition setFromAxisAngle :: "vec3 \<Rightarrow> real \<Rightarrow> quat" where
  "setFromAxisAngle axis angle =
     (let halfAngle = angle / 2; s = sin halfAngle
      in Quaternion (vx axis * s) (vy axis * s) (vz axis * s) (cos halfAngle))"

definition multiplyQuaternions :: "quat \<Rightarrow> quat \<Rightarrow> quat" where
  "multiplyQuaternions a b =
     Quaternion (qx a * qw b + qw a * qx b + qy a * qz b - qz a * qy b)
                (qy a * qw b + qw a * qy b + qz a * qx b - qx a * qz b)
                (qz a * qw b + qw a * qz b + qx a * qy b - qy a * qx b)
                (qw a * qw b - qx a * qx b - qy a * qy b - qz a * qz b)"

subsection \<open>Program state\<close>

text \<open>
  \<^verbatim>\<open>vehicle.mesh\<close> is \<^verbatim>\<open>null\<close> until the model (or the placeholder) has been
  attached, so it is an option. Only the position and the quaternion of the mesh are
  read or written by the code embedded here.
\<close>

record object3D =
  mesh_position :: vec3
  mesh_quaternion :: quat

record vehicle =
  mesh :: "object3D option"
  position :: vec3
  velocity :: vec3
  steerAngle :: real
  mass :: real
  wheelBase :: real
  maxSteer :: real
  dragCoef :: real
  rollingResistance :: real

definition vehicle_init :: vehicle where
  \<comment> \<open>the object literal of lines 88--98\<close>
  "vehicle_init =
     \<lparr> mesh = None,
       position = Vector3 0 20 0,
       velocity = Vector3 0 0 0,
       steerAngle = 0,
       mass = 1800,
       wheelBase = 2.7,
       maxSteer = pi / 6,
       dragCoef = 0.4257,
       rollingResistance = 12 \<rparr>"

definition attach :: "quat \<Rightarrow> vehicle \<Rightarrow> vehicle" where
  \<comment> \<open>\<^verbatim>\<open>vehicle.mesh = ...; vehicle.mesh.position.copy(vehicle.position)\<close>, for a model
      whose quaternion is \<open>q\<close> (lines 124--125 and 140--141)\<close>
  "attach q v = v\<lparr>mesh := Some \<lparr>mesh_position = position v, mesh_quaternion = q\<rparr>\<rparr>"

record keys =
  forward :: bool
  backKey :: bool  \<comment> \<open>\<^verbatim>\<open>keys.back\<close>\<close>
  left :: bool
  right :: bool
  handbrake :: bool

definition keys_init :: keys where
  "keys_init = \<lparr>forward = False, backKey = False, left = False, right = False, handbrake = False\<rparr>"

text \<open>
  The remaining module-level variables that the embedded functions touch:
  \<^verbatim>\<open>last\<close> (the clock reading of the previous physics step), the vehicle, the key
  flags, \<^verbatim>\<open>chaseCam\<close>, the camera's position and quaternion, and the target of
  the orbit controls.
\<close>

record sim =
  lastTime :: real  \<comment> \<open>\<^verbatim>\<open>last\<close>\<close>
  vehicle :: vehicle
  keys :: keys
  chaseCam :: bool
  camera_position :: vec3
  camera_quaternion :: quat
  controls_target :: vec3

subsection \<open>Ray ground check\<close>

text \<open>
  \<^verbatim>\<open>raycaster.intersectObject(ground)\<close> is the library's ray test against the terrain
  mesh. The terrain is taken as a parameter: the function from the ray's origin and
  direction to the array of intersections the library returns (nearest first).
\<close>

record intersection =
  distance :: real
  point :: vec3

type_synonym terrain = "vec3 \<Rightarrow> vec3 \<Rightarrow> intersection list"

definition getGroundHeightAt :: "terrain \<Rightarrow> real \<Rightarrow> real \<Rightarrow> real" where
  "getGroundHeightAt ground x z =
     (case ground (Vector3 x 2000 z) (Vector3 0 (- 1) 0) of
        [] \<Rightarrow> - 1000
      | h # _ \<Rightarrow> vy (point h))"

definition flatTerrain :: "real \<Rightarrow> terrain" where
  \<comment> \<open>an unbounded horizontal plane at height \<open>h\<close>, hit once by a ray that points
      straight down from above it; used to exercise \<open>getGroundHeightAt\<close>\<close>
  "flatTerrain h origin dir =
     (if vx dir = 0 \<and> vz dir = 0 \<and> vy dir < 0 \<and> h \<le> vy origin
      then [\<lparr>distance = (vy origin - h) / (- vy dir), point = Vector3 (vx origin) h (vz origin)\<rparr>]
      else [])"

definition noTerrain :: terrain where
  "noTerrain origin dir = []"

subsection \<open>Physics step\<close>

definition throttle :: "keys \<Rightarrow> real" where
  "throttle k = (if forward k then 1 else (if backKey k then - 0.6 else 0))"

definition steerInput :: "keys \<Rightarrow> real" where
  "steerInput k = (if left k then 1 else 0) - (if right k then 1 else 0)"

definition maxEngine :: real where
  "maxEngine = 8000"

definition targetSteer :: "keys \<Rightarrow> vehicle \<Rightarrow> real" where
  "targetSteer k v = steerInput k * maxSteer v"

definition integrateVelocity :: "real \<Rightarrow> keys \<Rightarrow> quat \<Rightarrow> vehicle \<Rightarrow> vec3" where
  \<comment> \<open>lines 206--214: the value of \<^verbatim>\<open>vehicle.velocity\<close> after
      \<^verbatim>\<open>vehicle.velocity.add(accel.multiplyScalar(dt))\<close>; \<open>q\<close> is the mesh quaternion\<close>
  "integrateVelocity dt k q v =
     (let forward_v = normalize (applyQuaternion (Vector3 0 0 1) q);
          engineF = multiplyScalar forward_v (throttle k * maxEngine);
          speed = vlength (velocity v);
          drag = multiplyScalar (velocity v) (- dragCoef v * speed);
          rolling = multiplyScalar (velocity v) (- rollingResistance v);
          net = vadd (vadd (vadd (Vector3 0 0 0) engineF) drag) rolling;
          accel = divideScalar net (mass v)
      in vadd (velocity v) (multiplyScalar accel dt))"

definition angularVel :: "vehicle \<Rightarrow> real" where
  \<comment> \<open>line 216, read from the vehicle after its steering angle and velocity were updated\<close>
  "angularVel v =
     (if vz (velocity v) \<noteq> 0
      then (vlength (velocity v) / wheelBase v) * tan (steerAngle v)
      else 0)"

definition steerStage :: "real \<Rightarrow> keys \<Rightarrow> vehicle \<Rightarrow> vehicle" where
  \<comment> \<open>lines 201--204: the vehicle after the assignment to \<^verbatim>\<open>vehicle.steerAngle\<close>\<close>
  "steerStage dt k v = v\<lparr>steerAngle := lerp (steerAngle v) (targetSteer k v) (5 * dt)\<rparr>"

definition velocityStage :: "real \<Rightarrow> keys \<Rightarrow> object3D \<Rightarrow> vehicle \<Rightarrow> vehicle" where
  \<comment> \<open>lines 206--214: the vehicle after \<^verbatim>\<open>vehicle.velocity.add(...)\<close>\<close>
  "velocityStage dt k m v = v\<lparr>velocity := integrateVelocity dt k (mesh_quaternion m) v\<rparr>"

definition stepVehicle :: "terrain \<Rightarrow> real \<Rightarrow> keys \<Rightarrow> vehicle \<Rightarrow> vehicle" where
  \<comment> \<open>lines 198--229 for a given \<open>dt\<close>\<close>
  "stepVehicle ground dt k v =
     (case mesh v of
        None \<Rightarrow> v
      | Some m \<Rightarrow>
         (let v1 = steerStage dt k v;
              v2 = velocityStage dt k m v1;
              deltaYaw = angularVel v2 * dt;
              yawQuat = setFromAxisAngle (Vector3 0 1 0) deltaYaw;
              q' = multiplyQuaternions yawQuat (mesh_quaternion m);
              localForward = applyQuaternion (Vector3 0 0 1) q';
              p1 = addScaledVector (mesh_position m) localForward
                     (vlength (velocity v2) * dt * sgn (vdot (velocity v2) localForward));
              groundY = getGroundHeightAt ground (vx p1) (vz p1);
              desiredY = groundY + 0.8;
              diff = desiredY - vy p1;
              suspensionK = 80;
              vel3 = Vector3 (vx (velocity v2))
                             (vy (velocity v2) + (diff * suspensionK * dt - 9.81 * dt))
                             (vz (velocity v2));
              p2 = Vector3 (vx p1) (vy p1 + vy vel3 * dt) (vz p1)
          in v2\<lparr>velocity := vel3,
                mesh := Some \<lparr>mesh_position = p2, mesh_quaternion = q'\<rparr>\<rparr>))"

definition clampDt :: "real \<Rightarrow> real \<Rightarrow> real" where
  \<comment> \<open>lines 194--195\<close>
  "clampDt now lastT = (let dt = (now - lastT) / 1000 in if dt > 0.05 then 0.05 else dt)"

definition physicsStep :: "terrain \<Rightarrow> real \<Rightarrow> sim \<Rightarrow> sim" where
  \<comment> \<open>\<open>now\<close> is the value \<^verbatim>\<open>performance.now()\<close> returns in this call; the value the
      function returns (\<open>dt\<close> on the early exit, nothing otherwise) is dropped by its caller\<close>
  "physicsStep ground now s =
     (let dt = clampDt now (lastTime s)
      in s\<lparr>lastTime := now, vehicle := stepVehicle ground dt (keys s) (vehicle s)\<rparr>)"


subsection \<open>The steering update in binary64\<close>










subsection \<open>Reset\<close>

definition resetVehicle :: "vehicle \<Rightarrow> vehicle" where
  "resetVehicle v =
     (case mesh v of
        None \<Rightarrow> v
      | Some m \<Rightarrow>
          v\<lparr>mesh := Some (m\<lparr>mesh_position := Vector3 0 20 0,
                             mesh_quaternion := Quaternion 0 0 0 1\<rparr>),
            velocity := Vector3 0 0 0\<rparr>)"

subsection \<open>Camera\<close>

text \<open>
  Reading a property of \<^verbatim>\<open>null\<close> throws a \<^verbatim>\<open>TypeError\<close>. A function that can
  throw returns \<open>Inl\<close> with the error and the state as the statements before the throw
  left it, or \<open>Inr\<close> with the final state.
\<close>

datatype js_error = TypeError

definition toggleCamera :: "sim \<Rightarrow> (js_error \<times> sim) + sim" where
  "toggleCamera s =
     (let s1 = s\<lparr>chaseCam := \<not> chaseCam s\<rparr>
      in if \<not> chaseCam s1
         then (case mesh (vehicle s1) of
                 None \<Rightarrow> Inl (TypeError, s1)
               | Some m \<Rightarrow> Inr (s1\<lparr>controls_target := mesh_position m\<rparr>))
         else Inr s1)"

text \<open>
  \<^verbatim>\<open>controls.update()\<close> and the rotation that \<^verbatim>\<open>camera.lookAt\<close> computes from the
  camera position and the target belong to the library; both are parameters.
\<close>

definition chaseOffset :: vec3 where
  "chaseOffset = Vector3 0 2.2 (- 6)"

definition desiredCamera :: "object3D \<Rightarrow> vec3" where
  \<comment> \<open>lines 170--172\<close>
  "desiredCamera m = vadd (mesh_position m) (applyQuaternion chaseOffset (mesh_quaternion m))"

definition updateCamera ::
  "(sim \<Rightarrow> sim) \<Rightarrow> (vec3 \<Rightarrow> vec3 \<Rightarrow> quat) \<Rightarrow> real \<Rightarrow> sim \<Rightarrow> sim" where
  "updateCamera controlsUpdate lookAt dt s =
     (if chaseCam s
      then (case mesh (vehicle s) of
              None \<Rightarrow> controlsUpdate s
            | Some m \<Rightarrow>
               (let p = vlerp (camera_position s) (desiredCamera m) (1 - 0.01 powr dt);
                    target = vadd (mesh_position m) (Vector3 0 1.2 0)
                in s\<lparr>camera_position := p, camera_quaternion := lookAt p target\<rparr>))
      else controlsUpdate s)"

subsection \<open>Initial state and sample states\<close>

definition sim_init :: sim where
  \<comment> \<open>the module-level variables after the script has run and before any model is
      attached; the clock starts at 0 and the orbit target at the origin\<close>
  "sim_init =
     \<lparr> lastTime = 0, vehicle = vehicle_init, keys = keys_init, chaseCam = True,
       camera_position = Vector3 0 5 (- 12), camera_quaternion = Quaternion 0 0 0 1,
       controls_target = Vector3 0 0 0 \<rparr>"

definition vehicle_fast :: vehicle where
  \<comment> \<open>the shipped vehicle, attached, moving at 200 km/s along +X\<close>
  "vehicle_fast = (attach (Quaternion 0 0 0 1) vehicle_init)\<lparr>velocity := Vector3 200000 0 0\<rparr>"

definition mesh_init :: object3D where
  \<comment> \<open>a mesh just attached: at \<^verbatim>\<open>vehicle.position\<close>, not rotated\<close>
  "mesh_init = \<lparr>mesh_position = Vector3 0 20 0, mesh_quaternion = Quaternion 0 0 0 1\<rparr>"

definition vehicle_attached :: vehicle where
  "vehicle_attached = attach (Quaternion 0 0 0 1) vehicle_init"

definition keys_forward_left :: keys where
  "keys_forward_left = keys_init\<lparr>forward := True, left := True\<rparr>"

definition sim_turned :: sim where
  \<comment> \<open>the initial state once a model turned by half a turn about the vertical is
      attached: chase mode, camera at \<open>(0, 5, -12)\<close>\<close>
  "sim_turned = sim_init\<lparr>vehicle := attach (Quaternion 0 1 0 0) vehicle_init\<rparr>"

definition vehicle_tick1 :: vehicle where
  \<comment> \<open>the vehicle one 50 ms step after the model was attached, no key held; under the
      origin the ground mesh has height \<open>(sin 0 + cos 0) * 8 = 8\<close>\<close>
  "vehicle_tick1 = stepVehicle (flatTerrain 8) 0.05 keys_init vehicle_attached"

definition vehicle_tick2 :: vehicle where
  \<comment> \<open>one more such step\<close>
  "vehicle_tick2 = stepVehicle (flatTerrain 8) 0.05 keys_init vehicle_tick1"







subsection \<open>Derived quantities used in the statements\<close>

definition coastFactor :: "real \<Rightarrow> vehicle \<Rightarrow> real" where
  \<comment> \<open>the scalar by which one velocity integration multiplies the velocity when the
      engine force is zero\<close>
  "coastFactor dt v = 1 - (dragCoef v * vlength (velocity v) + rollingResistance v) * dt / mass v"

definition isReset :: "vehicle \<Rightarrow> bool" where
  \<comment> \<open>the vehicle has a mesh at \<open>(0, 20, 0)\<close> with the identity rotation, and is at rest\<close>
  "isReset v =
     (case mesh v of
        None \<Rightarrow> False
      | Some m \<Rightarrow> mesh_position m = Vector3 0 20 0
                 \<and> mesh_quaternion m = Quaternion 0 0 0 1
                 \<and> velocity v = Vector3 0 0 0)"

text \<open>
  The two definitions below follow the words of the specification, not the code: the
  yaw rate it describes is gated on the lateral component of the velocity, that is the
  component along the vehicle's sideways axis (local +X rotated by the orientation, as
  the code's forward axis is local +Z rotated by it).
\<close>

definition lateralComponent :: "object3D \<Rightarrow> vec3 \<Rightarrow> real" where
  "lateralComponent m vel = vdot vel (applyQuaternion (Vector3 1 0 0) (mesh_quaternion m))"

definition spec_angularVel :: "object3D \<Rightarrow> vehicle \<Rightarrow> real" where
  "spec_angularVel m v =
     (if lateralComponent m (velocity v) \<noteq> 0
      then (vlength (velocity v) / wheelBase v) * tan (steerAngle v)
      else 0)"

section \<open>Properties\<close>

subsection \<open>The steering angle stays within its bound\<close>



lemma stepVehicle_steerAngle:
  "mesh v = Some m \<Longrightarrow>
   steerAngle (stepVehicle g dt k v) = lerp (steerAngle v) (targetSteer k v) (5 * dt)"
  by (simp add: stepVehicle_def Let_def steerStage_def velocityStage_def)







subsection \<open>The bound on the steering angle under rounding\<close>

























subsection \<open>Steering update\<close>

text \<open>
  Claim C2, as stated: the new steering angle is
  \<open>steerAngle + (target - steerAngle) * (1 - exp (-5 * dt))\<close>. The code interpolates with
  the factor \<open>5 * dt\<close> itself. From rest, with the left key held and \<open>dt = 0.05\<close>, the
  step yields \<open>pi / 24\<close>, not \<open>(pi / 6) * (1 - exp (- 1/4))\<close>.
\<close>

theorem steer_not_exponential:
  "steerAngle (stepVehicle (flatTerrain 0) 0.05 (keys_init\<lparr>left := True\<rparr>) (attach (Quaternion 0 0 0 1) vehicle_init))
   \<noteq> steerAngle (attach (Quaternion 0 0 0 1) vehicle_init)
      + (targetSteer (keys_init\<lparr>left := True\<rparr>) (attach (Quaternion 0 0 0 1) vehicle_init)
          - steerAngle (attach (Quaternion 0 0 0 1) vehicle_init)) * (1 - exp (- 5 * 0.05))"
proof -
  let ?v = "attach (Quaternion 0 0 0 1) vehicle_init"
  let ?k = "keys_init\<lparr>left := True\<rparr>"
  have e: "exp (- (1/4) :: real) \<noteq> 3/4"
    using exp_minus_greater[of "1/4 :: real"] by simp
  have l: "steerAngle (stepVehicle (flatTerrain 0) 0.05 ?k ?v) = (pi / 6) * (1 / 4)"
    by (simp add: stepVehicle_steerAngle attach_def vehicle_init_def keys_init_def
        targetSteer_def steerInput_def lerp_def)
  have r: "steerAngle ?v + (targetSteer ?k ?v - steerAngle ?v) * (1 - exp (- 5 * 0.05))
           = (pi / 6) * (1 - exp (- (1/4)))"
    by (simp add: attach_def vehicle_init_def keys_init_def targetSteer_def steerInput_def)
  have ne: "(pi / 6) * (1 / 4) \<noteq> (pi / 6) * (1 - exp (- (1/4)))"
  proof
    assume "(pi / 6) * (1 / 4) = (pi / 6) * (1 - exp (- (1/4)))"
    then have "(1 / 4 :: real) = 1 - exp (- (1/4))"
      by (simp only: mult_cancel_left) simp
    with e show False by simp
  qed
  show ?thesis unfolding l r by (rule ne)
qed

text \<open>
  Claim C2, amended: with the mesh attached, one physics step with time step \<open>dt\<close> sets
  the steering angle to \<open>steerAngle + (target - steerAngle) * (5 * dt)\<close>, where
  \<open>target = steerInput * maxSteer\<close>: linear interpolation with factor \<open>5 * dt\<close>.
\<close>

theorem steer_linear_lerp:
  assumes "mesh v = Some m"
  shows "steerAngle (stepVehicle g dt k v)
         = steerAngle v + (targetSteer k v - steerAngle v) * (5 * dt)
       \<and> targetSteer k v = steerInput k * maxSteer v"
  using assms by (simp add: stepVehicle_steerAngle lerp_def targetSteer_def algebra_simps)

theorem steer_linear_lerp_witness:
  "mesh (attach (Quaternion 0 0 0 1) vehicle_init)
     = Some \<lparr>mesh_position = Vector3 0 20 0, mesh_quaternion = Quaternion 0 0 0 1\<rparr>
   \<and> steerAngle (stepVehicle (flatTerrain 0) 0.05 (keys_init\<lparr>left := True\<rparr>)
                   (attach (Quaternion 0 0 0 1) vehicle_init)) = pi / 24"
proof -
  let ?v = "attach (Quaternion 0 0 0 1) vehicle_init"
  have m: "mesh ?v = Some \<lparr>mesh_position = Vector3 0 20 0, mesh_quaternion = Quaternion 0 0 0 1\<rparr>"
    by (simp add: attach_def vehicle_init_def)
  have t: "targetSteer (keys_init\<lparr>left := True\<rparr>) ?v = pi / 6"
    by (simp add: targetSteer_def steerInput_def keys_init_def attach_def vehicle_init_def)
  have z: "steerAngle ?v = 0"
    by (simp add: attach_def vehicle_init_def)
  have "steerAngle (stepVehicle (flatTerrain 0) 0.05 (keys_init\<lparr>left := True\<rparr>) ?v) = pi / 24"
    using steer_linear_lerp[OF m, of "flatTerrain 0" "0.05" "keys_init\<lparr>left := True\<rparr>"]
    by (simp add: t z)
  with m show ?thesis by simp
qed

subsection \<open>Coasting\<close>

lemma vlength_multiplyScalar: "vlength (multiplyScalar a c) = \<bar>c\<bar> * vlength a"
proof -
  have "vx a * c * (vx a * c) + vy a * c * (vy a * c) + vz a * c * (vz a * c)
        = (c * c) * (vx a * vx a + vy a * vy a + vz a * vz a)"
    by (simp add: algebra_simps)
  then show ?thesis
    by (simp add: vlength_def multiplyScalar_def real_sqrt_mult real_sqrt_abs2)
qed

lemma vlength_nonneg: "0 \<le> vlength a"
  by (simp add: vlength_def)

lemma vlength_zero_iff: "vlength a = 0 \<longleftrightarrow> a = Vector3 0 0 0"
proof -
  have "vx a * vx a + vy a * vy a + vz a * vz a = 0 \<longleftrightarrow> vx a = 0 \<and> vy a = 0 \<and> vz a = 0"
    by (simp add: add_nonneg_eq_0_iff)
  then show ?thesis by (cases a) (simp add: vlength_def)
qed

lemma vlength_pos: "a \<noteq> Vector3 0 0 0 \<Longrightarrow> 0 < vlength a"
  using vlength_nonneg[of a] vlength_zero_iff[of a] by linarith

lemma vlength_x_axis: "vlength (Vector3 a 0 0) = \<bar>a\<bar>"
  by (simp add: vlength_def real_sqrt_abs2)

lemma vlength_z_axis: "vlength (Vector3 0 0 a) = \<bar>a\<bar>"
  by (simp add: vlength_def real_sqrt_abs2)

lemma integrateVelocity_coast:
  assumes "\<not> forward k" "\<not> backKey k"
  shows "integrateVelocity dt k q v = multiplyScalar (velocity v) (coastFactor dt v)"
  using assms
  by (simp add: integrateVelocity_def throttle_def Let_def multiplyScalar_def vadd_def
      divideScalar_def coastFactor_def algebra_simps add_divide_distrib diff_divide_distrib)

lemma vlength_y_axis: "vlength (Vector3 0 a 0) = \<bar>a\<bar>"
  by (simp add: vlength_def real_sqrt_abs2)

lemmas step_eval = stepVehicle_def steerStage_def velocityStage_def integrateVelocity_def
  angularVel_def targetSteer_def steerInput_def throttle_def maxEngine_def lerp_def Let_def
  applyQuaternion_def normalize_def divideScalar_def multiplyScalar_def vadd_def vdot_def
  addScaledVector_def setFromAxisAngle_def multiplyQuaternions_def getGroundHeightAt_def
  flatTerrain_def vlength_x_axis vlength_y_axis vlength_z_axis

lemma tick1_fields:
  "velocity vehicle_tick1 = Vector3 0 (- (90581 / 2000)) 0"
  "mesh vehicle_tick1 = Some \<lparr>mesh_position = Vector3 0 (709419 / 40000) 0, mesh_quaternion = Quaternion 0 0 0 1\<rparr>"
  "mass vehicle_tick1 = 1800" "dragCoef vehicle_tick1 = 0.4257" "rollingResistance vehicle_tick1 = 12"
  "steerAngle vehicle_tick1 = 0" "maxSteer vehicle_tick1 = pi / 6" "wheelBase vehicle_tick1 = 2.7"
  by (simp_all add: vehicle_tick1_def vehicle_attached_def attach_def vehicle_init_def keys_init_def step_eval)

lemma tick2_integrated:
  "integrateVelocity 0.05 keys_init (Quaternion 0 0 0 1) vehicle_tick1
   = Vector3 0 (- (21720550741980941 / 480000000000000)) 0"
  by (simp add: integrateVelocity_def tick1_fields keys_init_def throttle_def maxEngine_def Let_def
      applyQuaternion_def normalize_def divideScalar_def multiplyScalar_def vadd_def
      vlength_y_axis vlength_z_axis)

lemma tick2_fields:
  "velocity vehicle_tick2 = Vector3 0 (- (39112102741980941 / 480000000000000)) 0"
  "mass vehicle_tick2 = 1800" "dragCoef vehicle_tick2 = 0.4257" "rollingResistance vehicle_tick2 = 12"
  by (simp_all add: vehicle_tick2_def stepVehicle_def tick1_fields steerStage_def velocityStage_def
      integrateVelocity_def angularVel_def targetSteer_def steerInput_def throttle_def maxEngine_def
      lerp_def Let_def keys_init_def
      applyQuaternion_def normalize_def divideScalar_def multiplyScalar_def vadd_def vdot_def
      addScaledVector_def setFromAxisAngle_def multiplyQuaternions_def getGroundHeightAt_def
      flatTerrain_def vlength_y_axis vlength_z_axis)

lemma tick3_integrated:
  "integrateVelocity 0.05 keys_init (Quaternion 0 0 0 1) vehicle_tick2
   = Vector3 0 (- (749978480325720033028056814978172887487 / 9216000000000000000000000000000000000)) 0"
  by (simp add: integrateVelocity_def tick2_fields keys_init_def throttle_def maxEngine_def Let_def
      applyQuaternion_def normalize_def divideScalar_def multiplyScalar_def vadd_def
      vlength_y_axis vlength_z_axis)

text \<open>
  Claim C4, as stated: with zero throttle and nonzero velocity the speed after the
  velocity integration is strictly less than before, decreasing tick over tick until it
  reaches zero. The same step then adds the suspension and gravity term to the vertical
  velocity. A model is attached 20 m up, over ground of height 8, and no key is held:
  one step later the vehicle falls at \<open>45.2905\<close> m/s, and the step after that leaves it
  at more than 81 m/s; the speed after the velocity integration rises likewise, from
  about \<open>45.25\<close> in the second step to about \<open>81.38\<close> in the third.
\<close>

theorem speed_grows_over_ticks:
  "throttle keys_init = 0
   \<and> velocity vehicle_tick1 \<noteq> Vector3 0 0 0
   \<and> vlength (velocity vehicle_tick1) < vlength (velocity vehicle_tick2)
   \<and> vlength (integrateVelocity 0.05 keys_init (Quaternion 0 0 0 1) vehicle_tick1)
       < vlength (integrateVelocity 0.05 keys_init (Quaternion 0 0 0 1) vehicle_tick2)"
proof -
  have t: "throttle keys_init = 0" by (simp add: throttle_def keys_init_def)
  have n: "velocity vehicle_tick1 \<noteq> Vector3 0 0 0" by (simp add: tick1_fields)
  have a: "vlength (velocity vehicle_tick1) < vlength (velocity vehicle_tick2)"
    by (simp add: tick1_fields tick2_fields vlength_y_axis)
  have b: "vlength (integrateVelocity 0.05 keys_init (Quaternion 0 0 0 1) vehicle_tick1)
       < vlength (integrateVelocity 0.05 keys_init (Quaternion 0 0 0 1) vehicle_tick2)"
    unfolding tick2_integrated tick3_integrated by (simp add: vlength_y_axis)
  show ?thesis by (intro conjI t n a b)
qed

lemma coasting_general:
  assumes "\<not> forward k" "\<not> backKey k" "velocity v \<noteq> Vector3 0 0 0" "0 < dt"
    and "0 < mass v" "0 \<le> dragCoef v" "0 < rollingResistance v"
    and "(dragCoef v * vlength (velocity v) + rollingResistance v) * dt < mass v"
  shows "vlength (integrateVelocity dt k q v) < vlength (velocity v)
       \<and> 0 < vlength (integrateVelocity dt k q v)
       \<and> integrateVelocity dt k q v = multiplyScalar (velocity v) (coastFactor dt v)
       \<and> 0 < coastFactor dt v \<and> coastFactor dt v < 1"
proof -
  let ?r = "(dragCoef v * vlength (velocity v) + rollingResistance v) * dt"
  have sp: "0 < vlength (velocity v)" using assms(3) by (rule vlength_pos)
  have "0 \<le> dragCoef v * vlength (velocity v)" using assms(6) sp by simp
  then have "0 < dragCoef v * vlength (velocity v) + rollingResistance v" using assms(7) by linarith
  then have r0: "0 < ?r" using assms(4) by simp
  have q0: "0 < ?r / mass v" using r0 assms(5) by simp
  have q1: "?r / mass v < 1" using assms(8) assms(5) by simp
  have c: "0 < coastFactor dt v" "coastFactor dt v < 1"
    using q0 q1 by (simp_all add: coastFactor_def)
  have eq: "integrateVelocity dt k q v = multiplyScalar (velocity v) (coastFactor dt v)"
    using assms(1,2) by (rule integrateVelocity_coast)
  have len: "vlength (integrateVelocity dt k q v) = coastFactor dt v * vlength (velocity v)"
    using c by (simp add: eq vlength_multiplyScalar)
  have "coastFactor dt v * vlength (velocity v) < 1 * vlength (velocity v)"
    using c sp by (intro mult_strict_right_mono) auto
  moreover have "0 < coastFactor dt v * vlength (velocity v)" using c sp by simp
  ultimately show ?thesis using len eq c by simp
qed

text \<open>
  Claim C4, amended: for every state with the vehicle's parameters (mass 1800, drag
  coefficient 0.4257, rolling resistance 12), zero throttle (forward and back both
  false), nonzero velocity of at most 84000 m/s, and every \<open>dt\<close> in \<open>(0, 0.05]\<close>, the
  velocity integration of the step multiplies the velocity by a factor strictly between
  0 and 1: the speed after it is strictly less than before it and still positive, and
  the velocity keeps its direction, so drag and rolling resistance alone never reverse
  it.
\<close>

theorem coasting_slows_down:
  assumes "\<not> forward k" "\<not> backKey k" "velocity v \<noteq> Vector3 0 0 0" "0 < dt" "dt \<le> 0.05"
    and "mass v = 1800" "dragCoef v = 0.4257" "rollingResistance v = 12"
    and "vlength (velocity v) \<le> 84000"
  shows "vlength (integrateVelocity dt k q v) < vlength (velocity v)
       \<and> 0 < vlength (integrateVelocity dt k q v)
       \<and> integrateVelocity dt k q v = multiplyScalar (velocity v) (coastFactor dt v)
       \<and> 0 < coastFactor dt v \<and> coastFactor dt v < 1"
proof -
  have "(0.4257 * vlength (velocity v) + 12) * dt \<le> (0.4257 * 84000 + 12) * 0.05"
    using assms(4,5,9) vlength_nonneg[of "velocity v"] by (intro mult_mono) auto
  also have "\<dots> < (1800::real)" by simp
  finally have b: "(0.4257 * vlength (velocity v) + 12) * dt < 1800" .
  have stable: "(dragCoef v * vlength (velocity v) + rollingResistance v) * dt < mass v"
    unfolding assms(6,7,8) by (rule b)
  have m: "0 < mass v" and d: "0 \<le> dragCoef v" and r: "0 < rollingResistance v"
    unfolding assms(6,7,8) by simp_all
  show ?thesis by (rule coasting_general[OF assms(1,2,3,4) m d r stable])
qed

theorem coasting_slows_down_witness:
  "\<not> forward keys_init \<and> \<not> backKey keys_init \<and> velocity vehicle_tick1 \<noteq> Vector3 0 0 0
   \<and> (0::real) < 0.05 \<and> mass vehicle_tick1 = 1800 \<and> dragCoef vehicle_tick1 = 0.4257
   \<and> rollingResistance vehicle_tick1 = 12 \<and> vlength (velocity vehicle_tick1) \<le> 84000
   \<and> vlength (integrateVelocity 0.05 keys_init (Quaternion 0 0 0 1) vehicle_tick1)
       < vlength (velocity vehicle_tick1)
   \<and> 0 < vlength (integrateVelocity 0.05 keys_init (Quaternion 0 0 0 1) vehicle_tick1)"
proof -
  have h1: "\<not> forward keys_init" and h2: "\<not> backKey keys_init" by (simp_all add: keys_init_def)
  have h3: "velocity vehicle_tick1 \<noteq> Vector3 0 0 0" by (simp add: tick1_fields)
  have h4: "(0::real) < 0.05" and h5: "(0.05::real) \<le> 0.05" by simp_all
  have h6: "mass vehicle_tick1 = 1800" and h7: "dragCoef vehicle_tick1 = 0.4257"
    and h8: "rollingResistance vehicle_tick1 = 12" by (simp_all add: tick1_fields)
  have h9: "vlength (velocity vehicle_tick1) \<le> 84000" by (simp add: tick1_fields vlength_y_axis)
  note r = coasting_slows_down[OF h1 h2 h3 h4 h5 h6 h7 h8 h9, of "Quaternion 0 0 0 1"]
  show ?thesis
    by (intro conjI h1 h2 h3 h4 h6 h7 h8 h9 r[THEN conjunct1] r[THEN conjunct2, THEN conjunct1])
qed

subsection \<open>Reset\<close>

text \<open>
  Claim C5, as stated: reset puts the vehicle at \<open>(0, 20, 0)\<close>, at rest, with the identity
  rotation, whatever the prior state. \<^verbatim>\<open>resetVehicle\<close> returns at once while no mesh
  is attached: on the initial vehicle it writes nothing (there is no mesh to carry a
  position or a rotation), and a velocity held by a vehicle without a mesh is kept.
\<close>

theorem reset_guarded_counterexample:
  "\<not> isReset (resetVehicle vehicle_init)
   \<and> velocity (resetVehicle (vehicle_init\<lparr>velocity := Vector3 3 0 4\<rparr>)) \<noteq> Vector3 0 0 0"
  by (simp add: isReset_def resetVehicle_def vehicle_init_def)

text \<open>
  Claim C5, amended: for every prior vehicle state in which the mesh is attached, reset
  sets the mesh position to \<open>(0, 20, 0)\<close>, the velocity to the zero vector and the mesh
  rotation to the identity, regardless of the rest of the prior state.
\<close>

theorem reset_with_mesh:
  assumes "mesh v = Some m"
  shows "map_option mesh_position (mesh (resetVehicle v)) = Some (Vector3 0 20 0)
       \<and> map_option mesh_quaternion (mesh (resetVehicle v)) = Some (Quaternion 0 0 0 1)
       \<and> velocity (resetVehicle v) = Vector3 0 0 0
       \<and> isReset (resetVehicle v)"
  using assms by (simp add: resetVehicle_def isReset_def)

theorem reset_with_mesh_witness:
  "mesh vehicle_fast = Some \<lparr>mesh_position = Vector3 0 20 0, mesh_quaternion = Quaternion 0 0 0 1\<rparr>
   \<and> velocity vehicle_fast = Vector3 200000 0 0
   \<and> velocity (resetVehicle vehicle_fast) = Vector3 0 0 0
   \<and> isReset (resetVehicle vehicle_fast)"
proof -
  have m: "mesh vehicle_fast = Some \<lparr>mesh_position = Vector3 0 20 0, mesh_quaternion = Quaternion 0 0 0 1\<rparr>"
    by (simp add: vehicle_fast_def attach_def vehicle_init_def)
  have v: "velocity vehicle_fast = Vector3 200000 0 0"
    by (simp add: vehicle_fast_def attach_def)
  note r = reset_with_mesh[OF m]
  show ?thesis
    by (intro conjI m v r[THEN conjunct2, THEN conjunct2, THEN conjunct1]
        r[THEN conjunct2, THEN conjunct2, THEN conjunct2])
qed

text \<open>
  Claim C9. Reset leaves the steering angle as it was, for every prior state: it writes
  the mesh position, the mesh rotation and the velocity only, so \<^verbatim>\<open>vehicle.position\<close>
  and the physical parameters are unchanged as well.
\<close>

theorem reset_keeps_steerAngle:
  "steerAngle (resetVehicle v) = steerAngle v
   \<and> position (resetVehicle v) = position v
   \<and> mass (resetVehicle v) = mass v
   \<and> wheelBase (resetVehicle v) = wheelBase v
   \<and> maxSteer (resetVehicle v) = maxSteer v
   \<and> dragCoef (resetVehicle v) = dragCoef v
   \<and> rollingResistance (resetVehicle v) = rollingResistance v"
  by (simp add: resetVehicle_def split: option.splits)

subsection \<open>The handbrake flag\<close>

lemma throttle_handbrake: "throttle (k\<lparr>handbrake := b\<rparr>) = throttle k"
  by (simp add: throttle_def)
lemma steerInput_handbrake: "steerInput (k\<lparr>handbrake := b\<rparr>) = steerInput k"
  by (simp add: steerInput_def)
lemma integrateVelocity_handbrake:
  "integrateVelocity dt (k\<lparr>handbrake := b\<rparr>) q v = integrateVelocity dt k q v"
  by (simp add: integrateVelocity_def throttle_handbrake)
lemma steerStage_handbrake: "steerStage dt (k\<lparr>handbrake := b\<rparr>) v = steerStage dt k v"
  by (simp add: steerStage_def targetSteer_def steerInput_handbrake)
lemma velocityStage_handbrake: "velocityStage dt (k\<lparr>handbrake := b\<rparr>) m v = velocityStage dt k m v"
  by (simp add: velocityStage_def integrateVelocity_handbrake)

lemma stepVehicle_handbrake: "stepVehicle g dt (k\<lparr>handbrake := b\<rparr>) v = stepVehicle g dt k v"
  by (cases "mesh v") (simp_all add: stepVehicle_def steerStage_handbrake velocityStage_handbrake)

text \<open>
  Claim C8. The physics step does not read the handbrake flag: for every vehicle state,
  terrain and \<open>dt\<close>, two runs whose key flags differ in the handbrake only produce the
  same vehicle (position, rotation, velocity and steering angle included); the same
  holds for \<^verbatim>\<open>physicsStep\<close> with its own clock reading.
\<close>

theorem handbrake_ignored:
  "stepVehicle g dt (k\<lparr>handbrake := b\<rparr>) v = stepVehicle g dt k v
   \<and> vehicle (physicsStep g now (s\<lparr>keys := (keys s)\<lparr>handbrake := b\<rparr>\<rparr>)) = vehicle (physicsStep g now s)"
  by (simp add: physicsStep_def stepVehicle_handbrake Let_def)

subsection \<open>Ground height\<close>

text \<open>
  Claim C6. For every probe point \<open>(x, z)\<close>, if the ray cast straight down from altitude
  2000 reports intersections, \<^verbatim>\<open>getGroundHeightAt\<close> returns the height of the first
  one; so where every reported intersection lies at height \<open>h0\<close> (flat terrain) it
  returns \<open>h0\<close>. If no intersection is reported it returns the sentinel \<open>-1000\<close>.
\<close>

theorem ground_height_first_hit_or_sentinel:
  "(ground (Vector3 x 2000 z) (Vector3 0 (- 1) 0) = h # hs \<longrightarrow> getGroundHeightAt ground x z = vy (point h))
   \<and> (ground (Vector3 x 2000 z) (Vector3 0 (- 1) 0) \<noteq> []
        \<and> (\<forall>i \<in> set (ground (Vector3 x 2000 z) (Vector3 0 (- 1) 0)). vy (point i) = h0)
       \<longrightarrow> getGroundHeightAt ground x z = h0)
   \<and> (ground (Vector3 x 2000 z) (Vector3 0 (- 1) 0) = [] \<longrightarrow> getGroundHeightAt ground x z = - 1000)"
  by (auto simp: getGroundHeightAt_def split: list.splits)

theorem ground_height_witness:
  "flatTerrain 7 (Vector3 3 2000 (- 5)) (Vector3 0 (- 1) 0) = [\<lparr>distance = 1993, point = Vector3 3 7 (- 5)\<rparr>]
   \<and> getGroundHeightAt (flatTerrain 7) 3 (- 5) = 7
   \<and> noTerrain (Vector3 3 2000 (- 5)) (Vector3 0 (- 1) 0) = []
   \<and> getGroundHeightAt noTerrain 3 (- 5) = - 1000"
proof -
  have f: "flatTerrain 7 (Vector3 3 2000 (- 5)) (Vector3 0 (- 1) 0) = [\<lparr>distance = 1993, point = Vector3 3 7 (- 5)\<rparr>]"
    by (simp add: flatTerrain_def)
  have n: "noTerrain (Vector3 3 2000 (- 5)) (Vector3 0 (- 1) 0) = []"
    by (simp add: noTerrain_def)
  have a: "getGroundHeightAt (flatTerrain 7) 3 (- 5) = 7"
    using ground_height_first_hit_or_sentinel[of "flatTerrain 7" 3 "- 5" _ "[]" 7] f by simp
  have b: "getGroundHeightAt noTerrain 3 (- 5) = - 1000"
    using ground_height_first_hit_or_sentinel[of noTerrain 3 "- 5"] n by simp
  show ?thesis using f n a b by simp
qed

subsection \<open>Camera toggle\<close>

text \<open>
  Claim C10. \<^verbatim>\<open>toggleCamera\<close> flips \<^verbatim>\<open>chaseCam\<close> and, when that leaves chase mode,
  reads \<^verbatim>\<open>vehicle.mesh.position\<close> with no guard: it throws exactly when it is called in
  chase mode with no mesh attached (leaving \<^verbatim>\<open>chaseCam\<close> false), and returns normally
  whenever the mesh is attached. With no mesh attached the physics step only records
  the clock and the camera update only runs the orbit controls: both are guarded.
\<close>

theorem toggleCamera_unguarded:
  "(isl (toggleCamera s) \<longleftrightarrow> chaseCam s \<and> mesh (vehicle s) = None)
   \<and> (chaseCam s \<and> mesh (vehicle s) = None \<longrightarrow> toggleCamera s = Inl (TypeError, s\<lparr>chaseCam := False\<rparr>))
   \<and> (mesh (vehicle s) = Some m \<longrightarrow>
        toggleCamera s = Inr (if chaseCam s then s\<lparr>chaseCam := False, controls_target := mesh_position m\<rparr>
                              else s\<lparr>chaseCam := True\<rparr>))
   \<and> (mesh (vehicle s) = None \<longrightarrow>
        physicsStep g now s = s\<lparr>lastTime := now\<rparr>
        \<and> updateCamera cu la dt s = cu s)"
  by (auto simp: toggleCamera_def Let_def physicsStep_def stepVehicle_def updateCamera_def split: option.splits)

theorem toggleCamera_unguarded_witness:
  "chaseCam sim_init \<and> mesh (vehicle sim_init) = None
   \<and> toggleCamera sim_init = Inl (TypeError, sim_init\<lparr>chaseCam := False\<rparr>)
   \<and> physicsStep noTerrain 16 sim_init = sim_init\<lparr>lastTime := 16\<rparr>
   \<and> updateCamera id (\<lambda>p t. Quaternion 0 0 0 1) 0.016 sim_init = sim_init
   \<and> toggleCamera (sim_init\<lparr>vehicle := attach (Quaternion 0 0 0 1) vehicle_init\<rparr>)
       = Inr (sim_init\<lparr>vehicle := attach (Quaternion 0 0 0 1) vehicle_init, chaseCam := False,
                       controls_target := Vector3 0 20 0\<rparr>)"
proof -
  have c: "chaseCam sim_init" and m: "mesh (vehicle sim_init) = None"
    by (simp_all add: sim_init_def vehicle_init_def)
  let ?s = "sim_init\<lparr>vehicle := attach (Quaternion 0 0 0 1) vehicle_init\<rparr>"
  have m2: "mesh (vehicle ?s) = Some \<lparr>mesh_position = Vector3 0 20 0, mesh_quaternion = Quaternion 0 0 0 1\<rparr>"
    by (simp add: attach_def vehicle_init_def)
  have c2: "chaseCam ?s" by (simp add: sim_init_def)
  note t1 = toggleCamera_unguarded[of sim_init _ noTerrain 16 id "\<lambda>p t. Quaternion 0 0 0 1" "0.016"]
  note t2 = toggleCamera_unguarded[of ?s "\<lparr>mesh_position = Vector3 0 20 0, mesh_quaternion = Quaternion 0 0 0 1\<rparr>"]
  show ?thesis using t1 t2 c m m2 c2 by simp
qed

subsection \<open>Yaw update\<close>

lemma attached_mesh: "mesh vehicle_attached = Some mesh_init"
  by (simp add: vehicle_attached_def attach_def vehicle_init_def mesh_init_def)

lemma pull_away_velocity:
  "velocity (velocityStage 0.05 keys_forward_left mesh_init (steerStage 0.05 keys_forward_left vehicle_attached))
   = Vector3 0 0 (2 / 9)"
  by (simp add: velocityStage_def steerStage_def integrateVelocity_def Let_def keys_forward_left_def
      keys_init_def throttle_def maxEngine_def mesh_init_def applyQuaternion_def normalize_def
      divideScalar_def multiplyScalar_def vlength_def vadd_def vehicle_attached_def attach_def vehicle_init_def)

lemma pull_away_steer:
  "steerAngle (velocityStage 0.05 keys_forward_left mesh_init (steerStage 0.05 keys_forward_left vehicle_attached))
   = pi / 24"
  by (simp add: velocityStage_def steerStage_def keys_forward_left_def lerp_def
      keys_init_def targetSteer_def steerInput_def vehicle_attached_def attach_def vehicle_init_def)

lemma pull_away_wheelBase:
  "wheelBase (velocityStage 0.05 keys_forward_left mesh_init (steerStage 0.05 keys_forward_left vehicle_attached))
   = 2.7"
  by (simp add: velocityStage_def steerStage_def vehicle_attached_def attach_def vehicle_init_def)

lemma tan_pi_24_pos: "0 < tan (pi / 24)"
  by (rule tan_gt_zero) (simp_all add: pi_gt_zero)

text \<open>
  Claim C3, as stated: the yaw rate is \<open>(|velocity| / wheelBase) * tan steerAngle\<close> when
  the lateral component of the velocity is nonzero, and 0 otherwise. The code tests the
  world Z component of the velocity, which is the vehicle's forward axis while it is not
  rotated. Pulling away from rest with forward and left held (\<open>dt = 0.05\<close>), the velocity
  after integration is \<open>(0, 0, 2/9)\<close>: its lateral component is 0, so the yaw rate as
  stated would be 0, while the code turns the vehicle at a positive rate.
\<close>

theorem yaw_rate_not_lateral:
  "lateralComponent mesh_init
     (velocity (velocityStage 0.05 keys_forward_left mesh_init (steerStage 0.05 keys_forward_left vehicle_attached))) = 0
   \<and> spec_angularVel mesh_init
       (velocityStage 0.05 keys_forward_left mesh_init (steerStage 0.05 keys_forward_left vehicle_attached)) = 0
   \<and> 0 < angularVel (velocityStage 0.05 keys_forward_left mesh_init (steerStage 0.05 keys_forward_left vehicle_attached))"
proof -
  let ?v2 = "velocityStage 0.05 keys_forward_left mesh_init (steerStage 0.05 keys_forward_left vehicle_attached)"
  have l: "lateralComponent mesh_init (velocity ?v2) = 0"
    unfolding pull_away_velocity
    by (simp add: lateralComponent_def vdot_def applyQuaternion_def mesh_init_def)
  have s: "spec_angularVel mesh_init ?v2 = 0"
    by (simp only: spec_angularVel_def l) simp
  have "angularVel ?v2 = (vlength (Vector3 0 0 (2 / 9)) / 2.7) * tan (pi / 24)"
    unfolding angularVel_def pull_away_velocity pull_away_steer pull_away_wheelBase by simp
  also have "\<dots> = (20 / 243) * tan (pi / 24)"
    by (simp add: vlength_z_axis)
  finally have a: "0 < angularVel ?v2" using tan_pi_24_pos by simp
  show ?thesis by (intro conjI l s a)
qed

text \<open>
  Claim C3, amended: in every physics step with the mesh attached (and a nonzero wheel
  base), the yaw angular velocity equals \<open>(|velocity| / wheelBase) * tan steerAngle\<close>
  whenever the world-space Z component of the velocity is nonzero, and 0 otherwise,
  where velocity and steerAngle are the values this step has just computed; the mesh
  rotation is then multiplied on the left by the rotation of \<open>angularVelocity * dt\<close>
  about the world vertical axis \<open>(0, 1, 0)\<close>.
\<close>

theorem yaw_update:
  assumes "mesh v = Some m" and "wheelBase v \<noteq> 0"
  shows "angularVel (velocityStage dt k m (steerStage dt k v))
           = (if vz (integrateVelocity dt k (mesh_quaternion m) v) \<noteq> 0
              then (vlength (integrateVelocity dt k (mesh_quaternion m) v) / wheelBase v)
                     * tan (lerp (steerAngle v) (targetSteer k v) (5 * dt))
              else 0)
       \<and> map_option mesh_quaternion (mesh (stepVehicle g dt k v))
           = Some (multiplyQuaternions
                     (setFromAxisAngle (Vector3 0 1 0)
                        (angularVel (velocityStage dt k m (steerStage dt k v)) * dt))
                     (mesh_quaternion m))
       \<and> setFromAxisAngle (Vector3 0 1 0) (angularVel (velocityStage dt k m (steerStage dt k v)) * dt)
           = Quaternion 0 (sin (angularVel (velocityStage dt k m (steerStage dt k v)) * dt / 2)) 0
                          (cos (angularVel (velocityStage dt k m (steerStage dt k v)) * dt / 2))"
proof (intro conjI)
  have iv: "integrateVelocity dt k q (steerStage dt k v) = integrateVelocity dt k q v" for q
    by (simp add: integrateVelocity_def steerStage_def)
  show "angularVel (velocityStage dt k m (steerStage dt k v))
           = (if vz (integrateVelocity dt k (mesh_quaternion m) v) \<noteq> 0
              then (vlength (integrateVelocity dt k (mesh_quaternion m) v) / wheelBase v)
                     * tan (lerp (steerAngle v) (targetSteer k v) (5 * dt))
              else 0)"
    by (simp add: angularVel_def velocityStage_def iv) (simp add: steerStage_def)
  show "map_option mesh_quaternion (mesh (stepVehicle g dt k v))
           = Some (multiplyQuaternions
                     (setFromAxisAngle (Vector3 0 1 0)
                        (angularVel (velocityStage dt k m (steerStage dt k v)) * dt))
                     (mesh_quaternion m))"
    using assms(1) by (simp add: stepVehicle_def Let_def)
  show "setFromAxisAngle (Vector3 0 1 0) (angularVel (velocityStage dt k m (steerStage dt k v)) * dt)
           = Quaternion 0 (sin (angularVel (velocityStage dt k m (steerStage dt k v)) * dt / 2)) 0
                          (cos (angularVel (velocityStage dt k m (steerStage dt k v)) * dt / 2))"
    by (simp add: setFromAxisAngle_def Let_def)
qed

theorem yaw_update_witness:
  "mesh vehicle_attached = Some mesh_init \<and> wheelBase vehicle_attached \<noteq> 0
   \<and> map_option mesh_quaternion (mesh (stepVehicle (flatTerrain 0) 0.05 keys_forward_left vehicle_attached))
       = Some (multiplyQuaternions
                 (setFromAxisAngle (Vector3 0 1 0) ((20 / 243) * tan (pi / 24) * 0.05))
                 (Quaternion 0 0 0 1))"
proof -
  let ?v2 = "velocityStage 0.05 keys_forward_left mesh_init (steerStage 0.05 keys_forward_left vehicle_attached)"
  have w: "wheelBase vehicle_attached \<noteq> 0"
    by (simp add: vehicle_attached_def attach_def vehicle_init_def)
  have "angularVel ?v2 = (vlength (Vector3 0 0 (2 / 9)) / 2.7) * tan (pi / 24)"
    unfolding angularVel_def pull_away_velocity pull_away_steer pull_away_wheelBase by simp
  then have a: "angularVel ?v2 = (20 / 243) * tan (pi / 24)"
    by (simp add: vlength_z_axis)
  have q: "mesh_quaternion mesh_init = Quaternion 0 0 0 1" by (simp add: mesh_init_def)
  note r = yaw_update[OF attached_mesh w, of "0.05" keys_forward_left "flatTerrain 0"]
  have "map_option mesh_quaternion (mesh (stepVehicle (flatTerrain 0) 0.05 keys_forward_left vehicle_attached))
       = Some (multiplyQuaternions
                 (setFromAxisAngle (Vector3 0 1 0) ((20 / 243) * tan (pi / 24) * 0.05))
                 (Quaternion 0 0 0 1))"
    using r[THEN conjunct2, THEN conjunct1] unfolding a q .
  then show ?thesis using attached_mesh w by simp
qed

subsection \<open>Chase camera\<close>

lemma chase_alpha: "0 < dt \<Longrightarrow> 0 < 1 - (0.01::real) powr dt \<and> 1 - (0.01::real) powr dt < 1"
  using powr01_less_one[of "0.01::real" dt] powr_gt_zero[of "0.01::real" dt] by simp

lemma vsub_vlerp: "vsub b (vlerp a b t) = multiplyScalar (vsub b a) (1 - t)"
  by (simp add: vsub_def vlerp_def multiplyScalar_def algebra_simps)

lemma vsub_zero_iff: "vsub a b = Vector3 0 0 0 \<longleftrightarrow> a = b"
  by (cases a; cases b) (simp add: vsub_def)

text \<open>
  Claim C7, as stated: in chase mode each camera update moves the camera toward the
  desired position. \<^verbatim>\<open>updateCamera\<close> tests \<^verbatim>\<open>chaseCam && vehicle.mesh\<close>: the program
  starts in chase mode with no mesh, and there an update runs the orbit controls instead
  and leaves the camera at \<open>(0, 5, -12)\<close>, not part of the way toward the vehicle
  position plus the offset.
\<close>

theorem chase_camera_needs_mesh:
  "chaseCam sim_init
   \<and> updateCamera id (\<lambda>p t. Quaternion 0 0 0 1) 0.016 sim_init = sim_init
   \<and> camera_position (updateCamera id (\<lambda>p t. Quaternion 0 0 0 1) 0.016 sim_init)
       \<noteq> vlerp (camera_position sim_init) (vadd (position (vehicle sim_init)) chaseOffset)
             (1 - 0.01 powr 0.016)"
proof -
  have c: "chaseCam sim_init" by (simp add: sim_init_def)
  have u: "updateCamera id (\<lambda>p t. Quaternion 0 0 0 1) 0.016 sim_init = sim_init"
    by (simp add: updateCamera_def sim_init_def vehicle_init_def)
  have a: "0 < 1 - (0.01::real) powr 0.016" using chase_alpha[of "0.016"] by simp
  have n: "camera_position sim_init
       \<noteq> vlerp (camera_position sim_init) (vadd (position (vehicle sim_init)) chaseOffset)
             (1 - 0.01 powr 0.016)"
    using a by (simp add: sim_init_def vehicle_init_def chaseOffset_def vadd_def vlerp_def)
  show ?thesis unfolding u by (intro conjI c refl n)
qed

text \<open>
  Claim C7, amended: in chase mode with the vehicle mesh attached, a camera update moves
  the camera position toward the desired position, the mesh position plus the offset
  \<open>(0, 2.2, -6)\<close> rotated by the mesh rotation, by linear interpolation with factor
  \<open>1 - 0.01 powr dt\<close>. For every \<open>dt > 0\<close> the factor lies strictly between 0 and 1, the
  remaining offset to the desired position is the old one scaled by \<open>0.01 powr dt\<close>, so
  the camera moves only part of the way and never past the target; the look-at target
  is the mesh position plus \<open>(0, 1.2, 0)\<close>.
\<close>

theorem chase_camera_partial:
  assumes "chaseCam s" and "mesh (vehicle s) = Some m" and "0 < dt"
  shows "camera_position (updateCamera cu la dt s)
           = vlerp (camera_position s) (desiredCamera m) (1 - 0.01 powr dt)
       \<and> desiredCamera m
           = vadd (mesh_position m) (applyQuaternion (Vector3 0 2.2 (- 6)) (mesh_quaternion m))
       \<and> 0 < 1 - (0.01::real) powr dt \<and> 1 - (0.01::real) powr dt < 1
       \<and> vsub (desiredCamera m) (camera_position (updateCamera cu la dt s))
           = multiplyScalar (vsub (desiredCamera m) (camera_position s)) (0.01 powr dt)
       \<and> vlength (vsub (desiredCamera m) (camera_position (updateCamera cu la dt s)))
           = 0.01 powr dt * vlength (vsub (desiredCamera m) (camera_position s))
       \<and> (camera_position s \<noteq> desiredCamera m \<longrightarrow>
            camera_position (updateCamera cu la dt s) \<noteq> desiredCamera m
            \<and> camera_position (updateCamera cu la dt s) \<noteq> camera_position s
            \<and> vlength (vsub (desiredCamera m) (camera_position (updateCamera cu la dt s)))
                < vlength (vsub (desiredCamera m) (camera_position s)))
       \<and> camera_quaternion (updateCamera cu la dt s)
           = la (camera_position (updateCamera cu la dt s)) (vadd (mesh_position m) (Vector3 0 1.2 0))"
proof -
  let ?a = "1 - (0.01::real) powr dt"
  let ?d = "desiredCamera m"
  let ?p = "camera_position s"
  let ?p' = "camera_position (updateCamera cu la dt s)"
  have pos: "?p' = vlerp ?p ?d ?a"
    using assms(1,2) by (simp add: updateCamera_def Let_def)
  have quat: "camera_quaternion (updateCamera cu la dt s) = la ?p' (vadd (mesh_position m) (Vector3 0 1.2 0))"
    using assms(1,2) by (simp add: updateCamera_def Let_def)
  have des: "?d = vadd (mesh_position m) (applyQuaternion (Vector3 0 2.2 (- 6)) (mesh_quaternion m))"
    by (simp add: desiredCamera_def chaseOffset_def)
  have a: "0 < ?a" "?a < 1" using chase_alpha[OF assms(3)] by simp_all
  have b: "0 < (0.01::real) powr dt" "(0.01::real) powr dt < 1" using a by simp_all
  have rest: "vsub ?d ?p' = multiplyScalar (vsub ?d ?p) (0.01 powr dt)"
    by (simp add: pos vsub_vlerp)
  have len: "vlength (vsub ?d ?p') = 0.01 powr dt * vlength (vsub ?d ?p)"
    using b by (simp add: rest vlength_multiplyScalar)
  have part: "?p' \<noteq> ?d \<and> ?p' \<noteq> ?p \<and> vlength (vsub ?d ?p') < vlength (vsub ?d ?p)" if ne: "?p \<noteq> ?d"
  proof -
    have "vsub ?d ?p \<noteq> Vector3 0 0 0" using ne by (auto simp: vsub_zero_iff)
    then have l0: "0 < vlength (vsub ?d ?p)" by (rule vlength_pos)
    have l1: "0 < vlength (vsub ?d ?p')" using l0 b by (simp add: len)
    have l2: "vlength (vsub ?d ?p') < vlength (vsub ?d ?p)"
      using mult_strict_right_mono[OF b(2) l0] by (simp add: len)
    have n1: "?p' \<noteq> ?d"
    proof
      assume "?p' = ?d"
      then have "vsub ?d ?p' = Vector3 0 0 0" by (simp add: vsub_zero_iff)
      then have "vlength (vsub ?d ?p') = 0" by (simp add: vlength_zero_iff)
      with l1 show False by simp
    qed
    have n2: "?p' \<noteq> ?p" using l2 by auto
    show ?thesis using n1 n2 l2 by simp
  qed
  show ?thesis using pos des a rest len part quat by blast
qed

lemma desired_turned:
  "desiredCamera \<lparr>mesh_position = Vector3 0 20 0, mesh_quaternion = Quaternion 0 1 0 0\<rparr>
   = Vector3 0 22.2 6"
  by (simp add: desiredCamera_def chaseOffset_def applyQuaternion_def vadd_def)

theorem chase_camera_partial_witness:
  "chaseCam sim_turned
   \<and> mesh (vehicle sim_turned)
       = Some \<lparr>mesh_position = Vector3 0 20 0, mesh_quaternion = Quaternion 0 1 0 0\<rparr>
   \<and> (0::real) < 0.016
   \<and> camera_position (updateCamera id (\<lambda>p t. Quaternion 0 0 0 1) 0.016 sim_turned)
       = vlerp (Vector3 0 5 (- 12)) (Vector3 0 22.2 6) (1 - 0.01 powr 0.016)
   \<and> camera_position (updateCamera id (\<lambda>p t. Quaternion 0 0 0 1) 0.016 sim_turned) \<noteq> Vector3 0 22.2 6"
proof -
  let ?m = "\<lparr>mesh_position = Vector3 0 20 0, mesh_quaternion = Quaternion 0 1 0 0\<rparr>"
  have c: "chaseCam sim_turned" by (simp add: sim_turned_def sim_init_def)
  have m: "mesh (vehicle sim_turned) = Some ?m"
    by (simp add: sim_turned_def attach_def vehicle_init_def)
  have d: "(0::real) < 0.016" by simp
  have p: "camera_position sim_turned = Vector3 0 5 (- 12)"
    by (simp add: sim_turned_def sim_init_def)
  have ne: "camera_position sim_turned \<noteq> desiredCamera ?m"
    by (simp add: p desired_turned)
  note r = chase_camera_partial[OF c m d, of id "\<lambda>p t. Quaternion 0 0 0 1"]
  have r1: "camera_position (updateCamera id (\<lambda>p t. Quaternion 0 0 0 1) 0.016 sim_turned)
       = vlerp (Vector3 0 5 (- 12)) (Vector3 0 22.2 6) (1 - 0.01 powr 0.016)"
    using r[THEN conjunct1] unfolding p desired_turned .
  have r2: "camera_position (updateCamera id (\<lambda>p t. Quaternion 0 0 0 1) 0.016 sim_turned) \<noteq> Vector3 0 22.2 6"
    using r ne unfolding desired_turned by blast
  show ?thesis by (intro conjI c m d r1 r2)
qed

end
